theory Spec2Isabelle
  imports Main "HOL-Library.Word" "HOL-Library.Sublist"
begin

section \<open>The ussl module of the CC3200 port: \<open>mod_ssl_wrap_socket\<close>\<close>

text \<open>
  The development embeds \<open>cc3200/mods/modussl.c\<close>. The file has one function,
  \<open>mod_ssl_wrap_socket\<close>, which checks its keyword arguments, sets up to four security
  options on the socket descriptor through SimpleLink's \<open>sl_SetSockOpt\<close>, and allocates
  the \<open>mp_obj_ssl_socket_t\<close> object it returns.

  What the embedding takes from outside the file:
  \<^item> \<open>mp_arg_parse_all\<close> has run: the model starts from the parsed \<open>args\<close> array, a record
    with one field per entry of \<open>allowed_args\<close>. A path argument is \<open>None\<close> for
    \<open>mp_const_none\<close> and \<open>Some s\<close> for a string object with the bytes \<open>s\<close> (what
    \<open>mp_obj_str_get_str\<close> returns a pointer to); objects of other types are not modelled.
  \<^item> \<open>sl_SetSockOpt\<close> and the value of \<open>SL_SO_SEC_METHOD_TLSV1\<close> come from
    \<open>simplelink.h\<close>, so they are parameters (the record \<open>simplelink\<close>), over an arbitrary
    state \<open>'dev\<close> of the network processor.
  \<^item> \<open>mod_network_socket_base_t\<close> comes from \<open>modnetwork.h\<close>. The file uses its members
    \<open>sd\<close> and \<open>cert_req\<close>; the remaining members are the field \<open>other_members\<close> of an
    arbitrary type.
\<close>

subsection \<open>Constants and types\<close>

type_synonym i16 = "16 word"
type_synonym u8 = "8 word"
type_synonym mp_int_t = int

text \<open>An \<open>mp_obj_t\<close> is a pointer to an object: an address.\<close>

type_synonym mp_obj_t = nat

definition SSL_CERT_NONE :: mp_int_t where
  "SSL_CERT_NONE = 0"

definition SSL_CERT_OPTIONAL :: mp_int_t where
  "SSL_CERT_OPTIONAL = 1"

definition SSL_CERT_REQUIRED :: mp_int_t where
  "SSL_CERT_REQUIRED = 2"

text \<open>The \<open>base.type\<close> member of an object: the type it is tagged with.\<close>

datatype mp_obj_type = socket_type | ssl_socket_type

record 'm mod_network_socket_base_t =
  sd :: i16
  cert_req :: bool
  other_members :: 'm

record 'm mod_network_socket_obj_t =
  base_type :: mp_obj_type
  sock_base :: "'m mod_network_socket_base_t"

text \<open>
  \<open>mp_obj_ssl_socket_t\<close> has the members of a socket object, in the same order, and then
  \<open>o_sock\<close>: it is the record of a socket object extended by one field.
\<close>

record 'm mp_obj_ssl_socket_t = "'m mod_network_socket_obj_t" +
  o_sock :: mp_obj_t

text \<open>The parsed arguments, \<open>args[0]\<close> to \<open>args[5]\<close>.\<close>

record wrap_args =
  sock :: mp_obj_t
  keyfile :: "string option"
  certfile :: "string option"
  server_side :: bool
  cert_reqs :: mp_int_t
  ca_certs :: "string option"

subsection \<open>Exceptions\<close>

datatype mp_msg = mpexception_value_invalid_arguments

text \<open>
  \<open>nlr_raise\<close> leaves the function with an exception. \<open>Out_Of_Bounds_Read\<close> is no
  exception of the runtime: it marks a run in which the C code reads outside the
  string it was given, after which C defines no behaviour.
\<close>

datatype error = ValueError mp_msg | OSError int | Out_Of_Bounds_Read

subsection \<open>Strings in memory\<close>

text \<open>
  A string object with the bytes \<open>s\<close> is an array of \<open>length s + 1\<close> chars, the last one
  the terminating zero. A \<open>const char *\<close> is \<open>None\<close> for \<open>NULL\<close> or a string with an
  offset into it. Computing the address \<open>&(s[i])\<close> reads nothing and does not fail;
  a read through the pointer is in bounds when the offset is at most \<open>length s\<close>.
\<close>

type_synonym char_ptr = "(string \<times> nat) option"

definition addr_of_index :: "string \<Rightarrow> nat \<Rightarrow> char_ptr" where
  "addr_of_index s i = Some (s, i)"

text \<open>
  \<open>strlen\<close> counts the bytes from the pointer up to the first zero byte, which is the
  terminating one unless the string holds a zero byte itself.
\<close>

definition strlen :: "string \<times> nat \<Rightarrow> nat option" where
  "strlen p =
     (case p of (s, off) \<Rightarrow>
        if off \<le> length s then Some (length (takeWhile (\<lambda>c. c \<noteq> CHR 0x00) (drop off s)))
        else None)"

text \<open>The \<open>len\<close> bytes a callee reads from the pointer.\<close>

definition bytes_at :: "string \<times> nat \<Rightarrow> nat \<Rightarrow> string" where
  "bytes_at p len = (case p of (s, off) \<Rightarrow> take len (drop off s))"

subsection \<open>The SimpleLink layer\<close>

datatype sock_level = SL_SOL_SOCKET

datatype sockopt =
    SL_SO_SECMETHOD
  | SL_SO_SECURE_FILES_PRIVATE_KEY_FILE_NAME
  | SL_SO_SECURE_FILES_CERTIFICATE_FILE_NAME
  | SL_SO_SECURE_FILES_CA_FILE_NAME

text \<open>
  The value of an option is passed as a pointer and a length: one byte for the
  method, \<open>strlen\<close> bytes from the pointer for a file name.
\<close>

datatype optval = Method_Byte u8 | Name_Bytes string

record sockopt_call =
  call_sd :: i16
  call_level :: sock_level
  call_optname :: sockopt
  call_optval :: optval

record 'dev simplelink =
  SL_SO_SEC_METHOD_TLSV1 :: u8
  sl_SetSockOpt :: "sockopt_call \<Rightarrow> 'dev \<Rightarrow> i16 \<times> 'dev"

text \<open>
  The state the function works on: the network processor, and the list of the
  \<open>sl_SetSockOpt\<close> calls made so far, each with the value it returned.
\<close>

record 'dev net =
  device :: 'dev
  calls :: "(sockopt_call \<times> i16) list"

definition set_sock_opt ::
  "'dev simplelink \<Rightarrow> sockopt_call \<Rightarrow> 'dev net \<Rightarrow> i16 \<times> 'dev net" where
  "set_sock_opt sl c n =
     (case sl_SetSockOpt sl c (device n) of
        (r, d) \<Rightarrow> (r, \<lparr>device = d, calls = calls n @ [(c, r)]\<rparr>))"

subsection \<open>\<open>mod_ssl_wrap_socket\<close>\<close>

text \<open>
  Lines 110 to 118, one of the three statements
  \<open>if (file && (_errno = sl_SetSockOpt(sd, SL_SOL_SOCKET, opt, file, strlen(file))) < 0)
  goto socket_error;\<close>:
  nothing happens for a \<open>NULL\<close> pointer; otherwise \<open>strlen\<close> reads the string, the option
  is set, and a negative \<open>_errno\<close> is raised as an \<open>OSError\<close> carrying it.
\<close>

definition set_file_opt ::
  "'dev simplelink \<Rightarrow> i16 \<Rightarrow> sockopt \<Rightarrow> char_ptr \<Rightarrow> 'dev net \<Rightarrow> error option \<times> 'dev net" where
  "set_file_opt sl d opt file n =
     (case file of
        None \<Rightarrow> (None, n)
      | Some p \<Rightarrow>
          (case strlen p of
             None \<Rightarrow> (Some Out_Of_Bounds_Read, n)
           | Some len \<Rightarrow>
               (case set_sock_opt sl
                       \<lparr>call_sd = d, call_level = SL_SOL_SOCKET, call_optname = opt,
                        call_optval = Name_Bytes (bytes_at p len)\<rparr> n of
                  (errno, n') \<Rightarrow>
                    if sint errno < 0 then (Some (OSError (sint errno)), n')
                    else (None, n'))))"

text \<open>
  The function. \<open>heap\<close> gives the socket object an \<open>mp_obj_t\<close> points to (the cast of
  \<open>args[0].u_obj\<close> to \<open>mod_network_socket_obj_t *\<close>). The result is the exception raised
  or the object returned, with the state of the network layer afterwards.
\<close>

definition mod_ssl_wrap_socket ::
  "'dev simplelink \<Rightarrow> (mp_obj_t \<Rightarrow> 'm mod_network_socket_obj_t) \<Rightarrow> wrap_args \<Rightarrow> 'dev net
     \<Rightarrow> (error + 'm mp_obj_ssl_socket_t) \<times> 'dev net" where
  "mod_ssl_wrap_socket sl heap args n =
     (if cert_reqs args \<noteq> SSL_CERT_NONE \<and> ca_certs args = None
      then (Inl (ValueError mpexception_value_invalid_arguments), n)
      else
        let key = (case keyfile args of None \<Rightarrow> None | Some s \<Rightarrow> addr_of_index s 6);
            cert = (case certfile args of None \<Rightarrow> None | Some s \<Rightarrow> addr_of_index s 6);
            ca = (case ca_certs args of
                    None \<Rightarrow> None
                  | Some s \<Rightarrow>
                      if cert_reqs args \<noteq> SSL_CERT_REQUIRED then None
                      else addr_of_index s 6)
        in
        if server_side args \<and> (key = None \<or> cert = None)
        then (Inl (ValueError mpexception_value_invalid_arguments), n)
        else
          let d = sd (sock_base (heap (sock args)));
              method = SL_SO_SEC_METHOD_TLSV1 sl
          in
          (case set_sock_opt sl
                  \<lparr>call_sd = d, call_level = SL_SOL_SOCKET, call_optname = SL_SO_SECMETHOD,
                   call_optval = Method_Byte method\<rparr> n of
             (errno, n1) \<Rightarrow>
               if sint errno < 0 then (Inl (OSError (sint errno)), n1)
               else
                 (case set_file_opt sl d SL_SO_SECURE_FILES_PRIVATE_KEY_FILE_NAME key n1 of
                    (Some e, n2) \<Rightarrow> (Inl e, n2)
                  | (None, n2) \<Rightarrow>
                 (case set_file_opt sl d SL_SO_SECURE_FILES_CERTIFICATE_FILE_NAME cert n2 of
                    (Some e, n3) \<Rightarrow> (Inl e, n3)
                  | (None, n3) \<Rightarrow>
                 (case set_file_opt sl d SL_SO_SECURE_FILES_CA_FILE_NAME ca n3 of
                    (Some e, n4) \<Rightarrow> (Inl e, n4)
                  | (None, n4) \<Rightarrow>
                      (Inr \<lparr>base_type = ssl_socket_type,
                            sock_base = (sock_base (heap (sock args)))
                              \<lparr>cert_req := (cert_reqs args = SSL_CERT_REQUIRED)\<rparr>,
                            o_sock = sock args\<rparr>, n4))))))"

subsection \<open>The calls of one run, and the contract they are compared with\<close>

text \<open>The \<open>sl_SetSockOpt\<close> calls made between two states of the network layer.\<close>

definition new_calls :: "'dev net \<Rightarrow> 'dev net \<Rightarrow> (sockopt_call \<times> i16) list" where
  "new_calls n n' = drop (length (calls n)) (calls n')"

text \<open>The network processor after a list of calls, whatever each of them returns.\<close>

definition apply_calls :: "'dev simplelink \<Rightarrow> sockopt_call list \<Rightarrow> 'dev \<Rightarrow> 'dev" where
  "apply_calls sl cs dev = fold (\<lambda>c d'. snd (sl_SetSockOpt sl c d')) cs dev"

text \<open>
  The two cross-field invariants of the request, in the words of the specification:
  a certificate requirement other than NONE needs a CA file, and the server side
  needs both a key file and a certificate file.
\<close>

definition violates_invariant :: "wrap_args \<Rightarrow> bool" where
  "violates_invariant args \<longleftrightarrow>
     (cert_reqs args \<noteq> SSL_CERT_NONE \<and> ca_certs args = None) \<or>
     (server_side args \<and> (keyfile args = None \<or> certfile args = None))"

text \<open>
  The name the firmware is given for a path: the C string that starts after the
  six bytes of the root prefix.
\<close>

definition forwarded_name :: "string \<Rightarrow> string" where
  "forwarded_name path = takeWhile (\<lambda>c. c \<noteq> CHR 0x00) (drop 6 path)"

definition file_call :: "i16 \<Rightarrow> sockopt \<Rightarrow> string \<Rightarrow> sockopt_call" where
  "file_call d opt path =
     \<lparr>call_sd = d, call_level = SL_SOL_SOCKET, call_optname = opt,
      call_optval = Name_Bytes (forwarded_name path)\<rparr>"

text \<open>
  Steps 2 to 5 of the specification's processing order: the method, always; the
  private key if a key file is present; the certificate if a certificate file is
  present; the CA file if the requirement is REQUIRED and a CA file is present.
\<close>

definition option_calls_in_order :: "'dev simplelink \<Rightarrow> i16 \<Rightarrow> wrap_args \<Rightarrow> sockopt_call list" where
  "option_calls_in_order sl d args =
     [\<lparr>call_sd = d, call_level = SL_SOL_SOCKET, call_optname = SL_SO_SECMETHOD,
       call_optval = Method_Byte (SL_SO_SEC_METHOD_TLSV1 sl)\<rparr>] @
     (case keyfile args of
        None \<Rightarrow> []
      | Some k \<Rightarrow> [file_call d SL_SO_SECURE_FILES_PRIVATE_KEY_FILE_NAME k]) @
     (case certfile args of
        None \<Rightarrow> []
      | Some c \<Rightarrow> [file_call d SL_SO_SECURE_FILES_CERTIFICATE_FILE_NAME c]) @
     (case ca_certs args of
        None \<Rightarrow> []
      | Some a \<Rightarrow>
          if cert_reqs args = SSL_CERT_REQUIRED
          then [file_call d SL_SO_SECURE_FILES_CA_FILE_NAME a] else [])"

text \<open>The paths the function reads: the CA file only when the requirement is REQUIRED.\<close>

definition paths_read :: "wrap_args \<Rightarrow> string list" where
  "paths_read args =
     (case keyfile args of None \<Rightarrow> [] | Some k \<Rightarrow> [k]) @
     (case certfile args of None \<Rightarrow> [] | Some c \<Rightarrow> [c]) @
     (case ca_certs args of
        None \<Rightarrow> []
      | Some a \<Rightarrow> if cert_reqs args = SSL_CERT_REQUIRED then [a] else [])"

text \<open>
  The lower layer reports no error between two states: none of the calls made
  returned a negative value.
\<close>

definition no_error_reported :: "'dev net \<Rightarrow> 'dev net \<Rightarrow> bool" where
  "no_error_reported n n' \<longleftrightarrow> list_all (\<lambda>cr. 0 \<le> sint (snd cr)) (new_calls n n')"

text \<open>The path argument an option takes its file name from.\<close>

definition path_argument :: "wrap_args \<Rightarrow> sockopt \<Rightarrow> string option" where
  "path_argument args opt =
     (case opt of
        SL_SO_SECMETHOD \<Rightarrow> None
      | SL_SO_SECURE_FILES_PRIVATE_KEY_FILE_NAME \<Rightarrow> keyfile args
      | SL_SO_SECURE_FILES_CERTIFICATE_FILE_NAME \<Rightarrow> certfile args
      | SL_SO_SECURE_FILES_CA_FILE_NAME \<Rightarrow> ca_certs args)"

subsection \<open>A lower layer for the examples\<close>

text \<open>
  A simulated network processor: its state is the list of the options set so far;
  it rejects the options in \<open>rejected\<close> with the error \<open>code\<close>, leaving its state as it
  is, and accepts every other option and stores it.
\<close>

definition simulated_layer ::
  "sockopt list \<Rightarrow> i16 \<Rightarrow> (sockopt \<times> optval) list simplelink" where
  "simulated_layer rejected code =
     \<lparr>SL_SO_SEC_METHOD_TLSV1 = 1,
      sl_SetSockOpt = (\<lambda>c dev.
        if call_optname c \<in> set rejected then (code, dev)
        else (0, dev @ [(call_optname c, call_optval c)]))\<rparr>"

definition fresh_net :: "(sockopt \<times> optval) list net" where
  "fresh_net = \<lparr>device = [], calls = []\<rparr>"

text \<open>A heap in which every address holds a plain socket with descriptor 3.\<close>

definition example_heap :: "mp_obj_t \<Rightarrow> unit mod_network_socket_obj_t" where
  "example_heap a =
     \<lparr>base_type = socket_type,
      sock_base = \<lparr>sd = 3, cert_req = False, other_members = ()\<rparr>\<rparr>"

text \<open>A server-side request with a key, a certificate and a required CA file.\<close>

definition example_args :: wrap_args where
  "example_args =
     \<lparr>sock = 7, keyfile = Some ''/flash/key.pem'', certfile = Some ''/flash/cert.pem'',
      server_side = True, cert_reqs = SSL_CERT_REQUIRED, ca_certs = Some ''/flash/ca.pem''\<rparr>"

section \<open>Properties\<close>

subsection \<open>The steps of the function\<close>

lemma bytes_at_strlen:
  "strlen (s, off) = Some len \<Longrightarrow>
     bytes_at (s, off) len = takeWhile (\<lambda>c. c \<noteq> CHR 0x00) (drop off s)"
  by (auto simp: strlen_def bytes_at_def takeWhile_eq_take [symmetric] split: if_splits)

lemma set_file_opt_NULL: "set_file_opt sl d opt None n = (None, n)"
  by (simp add: set_file_opt_def)

lemma set_file_opt_short:
  "length s < 6 \<Longrightarrow> set_file_opt sl d opt (addr_of_index s 6) n = (Some Out_Of_Bounds_Read, n)"
  by (simp add: set_file_opt_def addr_of_index_def strlen_def)

lemma set_file_opt_call:
  assumes "6 \<le> length s"
  shows "set_file_opt sl d opt (addr_of_index s 6) n =
     (case sl_SetSockOpt sl (file_call d opt s) (device n) of
        (r, dev) \<Rightarrow>
          (if sint r < 0 then Some (OSError (sint r)) else None,
           \<lparr>device = dev, calls = calls n @ [(file_call d opt s, r)]\<rparr>))"
proof -
  have "strlen (s, 6) = Some (length (forwarded_name s))"
    using assms by (simp add: strlen_def forwarded_name_def)
  moreover from this have "bytes_at (s, 6) (length (forwarded_name s)) = forwarded_name s"
    by (simp add: bytes_at_strlen forwarded_name_def)
  ultimately show ?thesis
    by (simp add: set_file_opt_def addr_of_index_def set_sock_opt_def file_call_def
        split: prod.splits)
qed

lemma set_file_opt_path:
  "set_file_opt sl d opt (addr_of_index s 6) n =
     (if length s < 6 then (Some Out_Of_Bounds_Read, n)
      else
        (case sl_SetSockOpt sl (file_call d opt s) (device n) of
           (r, dev) \<Rightarrow>
             (if sint r < 0 then Some (OSError (sint r)) else None,
              \<lparr>device = dev, calls = calls n @ [(file_call d opt s, r)]\<rparr>)))"
  by (simp add: set_file_opt_short set_file_opt_call)

lemma addr_of_index_not_NULL: "addr_of_index s i \<noteq> None"
  by (simp add: addr_of_index_def)

lemmas wrap_unfold =
  mod_ssl_wrap_socket_def set_sock_opt_def set_file_opt_NULL set_file_opt_path Let_def
  addr_of_index_not_NULL

lemma forwarded_name_no_zero:
  "CHR 0x00 \<notin> set path \<Longrightarrow> forwarded_name path = drop 6 path"
  by (auto simp: forwarded_name_def dest: in_set_dropD)


lemmas cert_consts = SSL_CERT_NONE_def SSL_CERT_OPTIONAL_def SSL_CERT_REQUIRED_def


lemma wrap_calls_success:
  assumes "mod_ssl_wrap_socket sl heap args n = (Inr w, n')"
  shows "map fst (new_calls n n') =
           option_calls_in_order sl (sd (sock_base (heap (sock args)))) args"
  using assms
  by (cases "keyfile args"; cases "certfile args"; cases "ca_certs args")
    (auto simp: wrap_unfold new_calls_def case_prod_beta option_calls_in_order_def
      split: if_splits)



lemma wrap_succeeds:
  assumes "mod_ssl_wrap_socket sl heap args n = (res, n')"
    and "\<not> violates_invariant args"
    and "\<forall>p \<in> set (paths_read args). 6 \<le> length p"
    and "no_error_reported n n'"
  shows "\<exists>w. res = Inr w"
  using assms
  by (cases "keyfile args"; cases "certfile args"; cases "ca_certs args")
    (auto simp: violates_invariant_def paths_read_def wrap_unfold case_prod_beta
      no_error_reported_def new_calls_def split: if_splits)

lemmas example_defs =
  mod_ssl_wrap_socket_def set_file_opt_def set_sock_opt_def strlen_def bytes_at_def
  addr_of_index_def simulated_layer_def example_heap_def fresh_net_def example_args_def
  cert_consts new_calls_def no_error_reported_def Let_def

subsection \<open>Argument validation\<close>

text \<open>
  Claim C1. A request that violates a cross-field invariant (a certificate
  requirement other than NONE without a CA file, or the server side without a key
  file or without a certificate file) fails with the invalid-arguments
  \<open>ValueError\<close>; the network layer is left as it was and no \<open>sl_SetSockOpt\<close> call is
  made.
\<close>

theorem invalid_request_rejected:
  assumes "violates_invariant args"
  shows "mod_ssl_wrap_socket sl heap args n =
           (Inl (ValueError mpexception_value_invalid_arguments), n) \<and>
         new_calls n (snd (mod_ssl_wrap_socket sl heap args n)) = []"
  using assms
  by (cases "keyfile args"; cases "certfile args")
    (auto simp: violates_invariant_def wrap_unfold new_calls_def)

theorem invalid_request_rejected_witness:
  "violates_invariant (example_args\<lparr>keyfile := None\<rparr>) \<and>
   mod_ssl_wrap_socket (simulated_layer [] 0) example_heap (example_args\<lparr>keyfile := None\<rparr>)
     fresh_net = (Inl (ValueError mpexception_value_invalid_arguments), fresh_net) \<and>
   new_calls fresh_net
     (snd (mod_ssl_wrap_socket (simulated_layer [] 0) example_heap
        (example_args\<lparr>keyfile := None\<rparr>) fresh_net)) = []"
proof -
  have h: "violates_invariant (example_args\<lparr>keyfile := None\<rparr>)"
    by (simp add: violates_invariant_def example_args_def)
  show ?thesis
    using h invalid_request_rejected [OF h, of "simulated_layer [] 0" example_heap fresh_net]
    by (simp add: new_calls_def)
qed

subsection \<open>Errors of the lower layer\<close>



subsection \<open>The CA file\<close>



subsection \<open>The object returned\<close>



text \<open>
  Claim C5. When the function returns an object, its \<open>cert_req\<close> flag is true
  exactly when the requirement is REQUIRED; it is false for NONE and for OPTIONAL.
\<close>

theorem cert_req_flag:
  assumes "mod_ssl_wrap_socket sl heap args n = (Inr w, n')"
  shows "(cert_req (sock_base w) \<longleftrightarrow> cert_reqs args = SSL_CERT_REQUIRED) \<and>
         (cert_reqs args = SSL_CERT_NONE \<or> cert_reqs args = SSL_CERT_OPTIONAL
            \<longrightarrow> \<not> cert_req (sock_base w))"
  using assms
  by (cases "keyfile args"; cases "certfile args"; cases "ca_certs args")
    (auto simp: wrap_unfold case_prod_beta cert_consts split: if_splits)

theorem cert_req_flag_witness:
  "fst (mod_ssl_wrap_socket (simulated_layer [] 0) example_heap
          (example_args\<lparr>cert_reqs := SSL_CERT_OPTIONAL\<rparr>) fresh_net) =
     Inr \<lparr>base_type = ssl_socket_type,
          sock_base = \<lparr>sd = 3, cert_req = False, other_members = ()\<rparr>,
          o_sock = 7\<rparr> \<and>
   cert_reqs (example_args\<lparr>cert_reqs := SSL_CERT_OPTIONAL\<rparr>) = SSL_CERT_OPTIONAL \<and>
   \<not> cert_req (sock_base
        \<lparr>base_type = ssl_socket_type,
         sock_base = \<lparr>sd = 3, cert_req = False, other_members = ()\<rparr>,
         o_sock = 7\<rparr>)"
proof -
  let ?run = "mod_ssl_wrap_socket (simulated_layer [] 0) example_heap
          (example_args\<lparr>cert_reqs := SSL_CERT_OPTIONAL\<rparr>) fresh_net"
  let ?w = "\<lparr>base_type = ssl_socket_type,
          sock_base = \<lparr>sd = 3, cert_req = False, other_members = ()\<rparr>,
          o_sock = 7\<rparr>"
  have f: "fst ?run = Inr ?w"
    by (simp add: example_defs)
  then have r: "?run = (Inr ?w, snd ?run)"
    by (metis prod.collapse)
  show ?thesis
    using f cert_req_flag [OF r]
    by (simp add: example_args_def)
qed

subsection \<open>File names\<close>

text \<open>
  Claim C6. Every file-name option the function sets takes its value from the path
  argument of that option, which then holds the six bytes of the root prefix: the
  value is the C string that starts after them, and for a path without a zero byte
  that is the path with its first six characters dropped. When the function
  returns an object, each key file, certificate file and (under REQUIRED) CA file
  given was forwarded in this form.
\<close>

theorem file_names_forwarded_without_prefix:
  assumes "mod_ssl_wrap_socket sl heap args n = (res, n')"
  shows "(\<forall>c r. (c, r) \<in> set (new_calls n n') \<and> call_optname c \<noteq> SL_SO_SECMETHOD \<longrightarrow>
            (\<exists>p. path_argument args (call_optname c) = Some p \<and> 6 \<le> length p \<and>
                 call_optval c = Name_Bytes (forwarded_name p) \<and>
                 (CHR 0x00 \<notin> set p \<longrightarrow> call_optval c = Name_Bytes (drop 6 p)))) \<and>
         (\<forall>w opt p. res = Inr w \<and> path_argument args opt = Some p \<and>
              (opt = SL_SO_SECURE_FILES_CA_FILE_NAME \<longrightarrow> cert_reqs args = SSL_CERT_REQUIRED) \<longrightarrow>
            file_call (sd (sock_base (heap (sock args)))) opt p \<in> fst ` set (new_calls n n'))"
proof (intro conjI allI impI)
  fix c r
  assume "(c, r) \<in> set (new_calls n n') \<and> call_optname c \<noteq> SL_SO_SECMETHOD"
  with assms have "\<exists>p. path_argument args (call_optname c) = Some p \<and> 6 \<le> length p \<and>
                 call_optval c = Name_Bytes (forwarded_name p)"
    by (cases "keyfile args"; cases "certfile args"; cases "ca_certs args")
      (auto simp: wrap_unfold new_calls_def case_prod_beta file_call_def path_argument_def
        split: if_splits)
  then show "\<exists>p. path_argument args (call_optname c) = Some p \<and> 6 \<le> length p \<and>
                 call_optval c = Name_Bytes (forwarded_name p) \<and>
                 (CHR 0x00 \<notin> set p \<longrightarrow> call_optval c = Name_Bytes (drop 6 p))"
    by (auto simp: forwarded_name_no_zero)
next
  fix w opt p
  assume h: "res = Inr w \<and> path_argument args opt = Some p \<and>
              (opt = SL_SO_SECURE_FILES_CA_FILE_NAME \<longrightarrow> cert_reqs args = SSL_CERT_REQUIRED)"
  with assms have "fst ` set (new_calls n n') =
      set (option_calls_in_order sl (sd (sock_base (heap (sock args)))) args)"
    using wrap_calls_success [of sl heap args n w n'] by (simp flip: set_map)
  moreover have "file_call (sd (sock_base (heap (sock args)))) opt p \<in>
      set (option_calls_in_order sl (sd (sock_base (heap (sock args)))) args)"
    using h by (cases opt) (auto simp: option_calls_in_order_def path_argument_def)
  ultimately show "file_call (sd (sock_base (heap (sock args)))) opt p \<in>
      fst ` set (new_calls n n')"
    by simp
qed

theorem file_names_forwarded_without_prefix_witness:
  "(\<lparr>call_sd = 3, call_level = SL_SOL_SOCKET,
      call_optname = SL_SO_SECURE_FILES_PRIVATE_KEY_FILE_NAME,
      call_optval = Name_Bytes ''/key.pem''\<rparr>, 0)
     \<in> set (new_calls fresh_net
         (snd (mod_ssl_wrap_socket (simulated_layer [] 0) example_heap example_args
            fresh_net))) \<and>
   path_argument example_args SL_SO_SECURE_FILES_PRIVATE_KEY_FILE_NAME =
     Some ''/flash/key.pem'' \<and>
   CHR 0x00 \<notin> set ''/flash/key.pem'' \<and>
   Name_Bytes ''/key.pem'' = Name_Bytes (drop 6 ''/flash/key.pem'')"
proof -
  let ?run = "mod_ssl_wrap_socket (simulated_layer [] 0) example_heap example_args fresh_net"
  let ?c = "\<lparr>call_sd = 3, call_level = SL_SOL_SOCKET,
      call_optname = SL_SO_SECURE_FILES_PRIVATE_KEY_FILE_NAME,
      call_optval = Name_Bytes ''/key.pem''\<rparr>"
  have r: "?run = (fst ?run, snd ?run)"
    by simp
  have c: "(?c, 0) \<in> set (new_calls fresh_net (snd ?run)) \<and>
      call_optname ?c \<noteq> SL_SO_SECMETHOD"
    by (simp add: example_defs)
  have p: "path_argument example_args SL_SO_SECURE_FILES_PRIVATE_KEY_FILE_NAME =
      Some ''/flash/key.pem''"
    by (simp add: path_argument_def example_args_def)
  from file_names_forwarded_without_prefix [OF r] c
  have "\<exists>p. path_argument example_args (call_optname ?c) = Some p \<and> 6 \<le> length p \<and>
      call_optval ?c = Name_Bytes (forwarded_name p) \<and>
      (CHR 0x00 \<notin> set p \<longrightarrow> call_optval ?c = Name_Bytes (drop 6 p))"
    by blast
  with c p show ?thesis
    by simp
qed

subsection \<open>The order of the calls\<close>



subsection \<open>No rollback\<close>

text \<open>
  Claim C8. When the function raises an \<open>OSError\<close>, it made at least one call; the
  calls are an initial part of the list of claim C7, each of them but the last
  succeeded, and the last returned the code raised. The network processor is left
  in the state these calls put it in, one after the other: nothing is undone after
  the failing call, so the options set before it stay set.
\<close>

theorem no_rollback_after_failed_call:
  assumes "mod_ssl_wrap_socket sl heap args n = (Inl (OSError e), n')"
  shows "new_calls n n' \<noteq> [] \<and>
         calls n' = calls n @ new_calls n n' \<and>
         prefix (map fst (new_calls n n'))
           (option_calls_in_order sl (sd (sock_base (heap (sock args)))) args) \<and>
         (\<forall>cr \<in> set (butlast (new_calls n n')). 0 \<le> sint (snd cr)) \<and>
         sint (snd (last (new_calls n n'))) = e \<and> e < 0 \<and>
         device n' = apply_calls sl (map fst (new_calls n n')) (device n)"
  using assms
  by (cases "keyfile args"; cases "certfile args"; cases "ca_certs args")
    (auto simp: wrap_unfold new_calls_def case_prod_beta option_calls_in_order_def
      apply_calls_def split: if_splits)

theorem no_rollback_after_failed_call_witness:
  "fst (mod_ssl_wrap_socket
          (simulated_layer [SL_SO_SECURE_FILES_CERTIFICATE_FILE_NAME] (- 5))
          example_heap example_args fresh_net) = Inl (OSError (- 5)) \<and>
   map snd (new_calls fresh_net
      (snd (mod_ssl_wrap_socket
          (simulated_layer [SL_SO_SECURE_FILES_CERTIFICATE_FILE_NAME] (- 5))
          example_heap example_args fresh_net))) = [0, 0, - 5] \<and>
   device (snd (mod_ssl_wrap_socket
          (simulated_layer [SL_SO_SECURE_FILES_CERTIFICATE_FILE_NAME] (- 5))
          example_heap example_args fresh_net)) =
     [(SL_SO_SECMETHOD, Method_Byte 1),
      (SL_SO_SECURE_FILES_PRIVATE_KEY_FILE_NAME, Name_Bytes ''/key.pem'')] \<and>
   apply_calls (simulated_layer [SL_SO_SECURE_FILES_CERTIFICATE_FILE_NAME] (- 5))
     (map fst (new_calls fresh_net
        (snd (mod_ssl_wrap_socket
          (simulated_layer [SL_SO_SECURE_FILES_CERTIFICATE_FILE_NAME] (- 5))
          example_heap example_args fresh_net))))
     (device fresh_net) =
     [(SL_SO_SECMETHOD, Method_Byte 1),
      (SL_SO_SECURE_FILES_PRIVATE_KEY_FILE_NAME, Name_Bytes ''/key.pem'')]"
proof -
  let ?sl = "simulated_layer [SL_SO_SECURE_FILES_CERTIFICATE_FILE_NAME] (- 5)"
  let ?run = "mod_ssl_wrap_socket ?sl example_heap example_args fresh_net"
  have f: "fst ?run = Inl (OSError (- 5))"
    by (simp add: example_defs)
  then have r: "?run = (Inl (OSError (- 5)), snd ?run)"
    by (metis prod.collapse)
  have d: "device (snd ?run) =
     [(SL_SO_SECMETHOD, Method_Byte 1),
      (SL_SO_SECURE_FILES_PRIVATE_KEY_FILE_NAME, Name_Bytes ''/key.pem'')]"
    by (simp add: example_defs)
  have c: "map snd (new_calls fresh_net (snd ?run)) = [0, 0, - 5]"
    by (simp add: example_defs)
  from no_rollback_after_failed_call [OF r]
  have "device (snd ?run) =
      apply_calls ?sl (map fst (new_calls fresh_net (snd ?run))) (device fresh_net)"
    by blast
  with f d c show ?thesis
    by simp
qed

subsection \<open>Reads past the end of a path\<close>

text \<open>
  Claim C9. The function takes the address of index 6 of each path it uses without
  looking at the length of the path, and reads the string from there. The read is
  in bounds exactly when the path has at least six bytes. So a run in which every
  path read has at least six bytes never reads out of bounds; and a run that passes
  validation, with a lower layer that reports no error, reads out of bounds as soon
  as one of the paths read is shorter.
\<close>

theorem path_reads_in_bounds:
  assumes "mod_ssl_wrap_socket sl heap args n = (res, n')"
  shows "((\<forall>p \<in> set (paths_read args). 6 \<le> length p) \<longrightarrow> res \<noteq> Inl Out_Of_Bounds_Read) \<and>
         (\<not> violates_invariant args \<and> no_error_reported n n' \<and>
          (\<exists>p \<in> set (paths_read args). length p < 6) \<longrightarrow> res = Inl Out_Of_Bounds_Read) \<and>
         (\<forall>s q. addr_of_index s 6 = Some q \<longrightarrow> (strlen q = None \<longleftrightarrow> length s < 6))"
proof (intro conjI impI allI)
  show "res \<noteq> Inl Out_Of_Bounds_Read"
    if "\<forall>p \<in> set (paths_read args). 6 \<le> length p"
    using that assms
    by (cases "keyfile args"; cases "certfile args"; cases "ca_certs args")
      (auto simp: wrap_unfold case_prod_beta paths_read_def split: if_splits)
  show "res = Inl Out_Of_Bounds_Read"
    if "\<not> violates_invariant args \<and> no_error_reported n n' \<and>
          (\<exists>p \<in> set (paths_read args). length p < 6)"
    using that assms
    by (cases "keyfile args"; cases "certfile args"; cases "ca_certs args")
      (auto simp: wrap_unfold case_prod_beta paths_read_def violates_invariant_def
        no_error_reported_def new_calls_def split: if_splits)
  show "strlen q = None \<longleftrightarrow> length s < 6" if "addr_of_index s 6 = Some q" for s q
    using that by (auto simp: addr_of_index_def strlen_def split: if_splits)
qed

theorem path_reads_in_bounds_witness:
  "list_all (\<lambda>p. 6 \<le> length p) (paths_read example_args) \<and>
   fst (mod_ssl_wrap_socket (simulated_layer [] 0) example_heap example_args fresh_net)
     \<noteq> Inl Out_Of_Bounds_Read \<and>
   \<not> violates_invariant (example_args\<lparr>certfile := Some ''/cert''\<rparr>) \<and>
   no_error_reported fresh_net
     (snd (mod_ssl_wrap_socket (simulated_layer [] 0) example_heap
          (example_args\<lparr>certfile := Some ''/cert''\<rparr>) fresh_net)) \<and>
   (\<exists>p \<in> set (paths_read (example_args\<lparr>certfile := Some ''/cert''\<rparr>)). length p < 6) \<and>
   fst (mod_ssl_wrap_socket (simulated_layer [] 0) example_heap
          (example_args\<lparr>certfile := Some ''/cert''\<rparr>) fresh_net) = Inl Out_Of_Bounds_Read \<and>
   addr_of_index ''/cert'' 6 = Some (''/cert'', 6) \<and>
   strlen (''/cert'', 6) = None"
proof -
  let ?short = "example_args\<lparr>certfile := Some ''/cert''\<rparr>"
  let ?run = "mod_ssl_wrap_socket (simulated_layer [] 0) example_heap example_args fresh_net"
  let ?run' = "mod_ssl_wrap_socket (simulated_layer [] 0) example_heap ?short fresh_net"
  have r: "?run = (fst ?run, snd ?run)" and r': "?run' = (fst ?run', snd ?run')"
    by simp_all
  have h1: "\<forall>p \<in> set (paths_read example_args). 6 \<le> length p"
    by (simp add: paths_read_def example_args_def)
  have h2: "\<not> violates_invariant ?short \<and> no_error_reported fresh_net (snd ?run') \<and>
      (\<exists>p \<in> set (paths_read ?short). length p < 6)"
    by (simp add: violates_invariant_def paths_read_def example_defs)
  have h3: "addr_of_index ''/cert'' 6 = Some (''/cert'', 6)"
    by (simp add: addr_of_index_def)
  from path_reads_in_bounds [OF r] h1 have a: "fst ?run \<noteq> Inl Out_Of_Bounds_Read"
    by blast
  from path_reads_in_bounds [OF r'] h2 have b: "fst ?run' = Inl Out_Of_Bounds_Read"
    by blast
  from path_reads_in_bounds [OF r'] h3 have c: "strlen (''/cert'', 6) = None"
    by auto
  from h1 h2 h3 a b c show ?thesis
    by (simp add: list_all_iff)
qed

subsection \<open>Requirement values outside the defined set\<close>

text \<open>
  Claim C10. A requirement that is none of NONE, OPTIONAL and REQUIRED is not
  rejected as such: without a CA file the function raises the
  invalid-arguments \<open>ValueError\<close> (the value counts as other than NONE); it never
  makes a call for the CA file option; an object it returns has the \<open>cert_req\<close> flag
  false; and it does return an object when a CA file is given, the server side has
  its key and certificate, every path read holds the six bytes of the prefix and
  the lower layer reports no error.
\<close>

theorem cert_reqs_outside_defined_set:
  assumes "mod_ssl_wrap_socket sl heap args n = (res, n')"
    and "cert_reqs args \<notin> {SSL_CERT_NONE, SSL_CERT_OPTIONAL, SSL_CERT_REQUIRED}"
  shows "(ca_certs args = None \<longrightarrow>
            res = Inl (ValueError mpexception_value_invalid_arguments) \<and> n' = n) \<and>
         (\<forall>cr \<in> set (new_calls n n').
            call_optname (fst cr) \<noteq> SL_SO_SECURE_FILES_CA_FILE_NAME) \<and>
         (\<forall>w. res = Inr w \<longrightarrow> \<not> cert_req (sock_base w)) \<and>
         (ca_certs args \<noteq> None \<and>
          (server_side args \<longrightarrow> keyfile args \<noteq> None \<and> certfile args \<noteq> None) \<and>
          (\<forall>p \<in> set (paths_read args). 6 \<le> length p) \<and> no_error_reported n n' \<longrightarrow>
            (\<exists>w. res = Inr w))"
proof (intro conjI impI allI ballI)
  show "res = Inl (ValueError mpexception_value_invalid_arguments)" and "n' = n"
    if "ca_certs args = None"
    using that assms by (simp_all add: mod_ssl_wrap_socket_def)
  show "call_optname (fst cr) \<noteq> SL_SO_SECURE_FILES_CA_FILE_NAME"
    if "cr \<in> set (new_calls n n')" for cr
    using that assms
    by (cases "keyfile args"; cases "certfile args"; cases "ca_certs args")
      (auto simp: wrap_unfold new_calls_def case_prod_beta file_call_def split: if_splits)
  show "\<not> cert_req (sock_base w)" if "res = Inr w" for w
    using that assms
    by (cases "keyfile args"; cases "certfile args"; cases "ca_certs args")
      (auto simp: wrap_unfold case_prod_beta split: if_splits)
  show "\<exists>w. res = Inr w"
    if "ca_certs args \<noteq> None \<and>
          (server_side args \<longrightarrow> keyfile args \<noteq> None \<and> certfile args \<noteq> None) \<and>
          (\<forall>p \<in> set (paths_read args). 6 \<le> length p) \<and> no_error_reported n n'"
  proof -
    from that have "\<not> violates_invariant args"
      by (auto simp: violates_invariant_def)
    with that assms(1) show ?thesis
      using wrap_succeeds [of sl heap args n res n'] by blast
  qed
qed

theorem cert_reqs_outside_defined_set_witness:
  "cert_reqs (example_args\<lparr>cert_reqs := 7\<rparr>)
     \<notin> {SSL_CERT_NONE, SSL_CERT_OPTIONAL, SSL_CERT_REQUIRED} \<and>
   fst (mod_ssl_wrap_socket (simulated_layer [] 0) example_heap
     (example_args\<lparr>cert_reqs := 7, ca_certs := None\<rparr>) fresh_net) =
     Inl (ValueError mpexception_value_invalid_arguments) \<and>
   fst (mod_ssl_wrap_socket (simulated_layer [] 0) example_heap
          (example_args\<lparr>cert_reqs := 7\<rparr>) fresh_net) =
     Inr \<lparr>base_type = ssl_socket_type,
          sock_base = \<lparr>sd = 3, cert_req = False, other_members = ()\<rparr>,
          o_sock = 7\<rparr> \<and>
   SL_SO_SECURE_FILES_CA_FILE_NAME \<notin>
     (\<lambda>cr. call_optname (fst cr)) ` set (new_calls fresh_net
        (snd (mod_ssl_wrap_socket (simulated_layer [] 0) example_heap
           (example_args\<lparr>cert_reqs := 7\<rparr>) fresh_net)))"
proof -
  let ?args = "example_args\<lparr>cert_reqs := 7\<rparr>"
  let ?noca = "example_args\<lparr>cert_reqs := 7, ca_certs := None\<rparr>"
  let ?run = "mod_ssl_wrap_socket (simulated_layer [] 0) example_heap ?args fresh_net"
  let ?run' = "mod_ssl_wrap_socket (simulated_layer [] 0) example_heap ?noca fresh_net"
  have r: "?run = (fst ?run, snd ?run)" and r': "?run' = (fst ?run', snd ?run')"
    by simp_all
  have h1: "cert_reqs ?args \<notin> {SSL_CERT_NONE, SSL_CERT_OPTIONAL, SSL_CERT_REQUIRED}"
    by (simp add: example_args_def cert_consts)
  have h2: "cert_reqs ?noca \<notin> {SSL_CERT_NONE, SSL_CERT_OPTIONAL, SSL_CERT_REQUIRED}"
    by (simp add: example_args_def cert_consts)
  have h3: "ca_certs ?noca = None"
    by simp
  have h4: "ca_certs ?args \<noteq> None \<and>
      (server_side ?args \<longrightarrow> keyfile ?args \<noteq> None \<and> certfile ?args \<noteq> None) \<and>
      (\<forall>p \<in> set (paths_read ?args). 6 \<le> length p) \<and>
      no_error_reported fresh_net (snd ?run)"
    by (simp add: paths_read_def example_defs)
  from cert_reqs_outside_defined_set [OF r' h2] h3
  have v: "fst ?run' = Inl (ValueError mpexception_value_invalid_arguments)"
    by blast
  from cert_reqs_outside_defined_set [OF r h1] h4
  obtain w where w: "fst ?run = Inr w" and "\<not> cert_req (sock_base w)"
    by blast
  have f: "fst ?run = Inr \<lparr>base_type = ssl_socket_type,
          sock_base = \<lparr>sd = 3, cert_req = False, other_members = ()\<rparr>,
          o_sock = 7\<rparr>"
    by (simp add: example_defs)
  from cert_reqs_outside_defined_set [OF r h1]
  have "\<forall>cr \<in> set (new_calls fresh_net (snd ?run)).
      call_optname (fst cr) \<noteq> SL_SO_SECURE_FILES_CA_FILE_NAME"
    by blast
  then have c: "SL_SO_SECURE_FILES_CA_FILE_NAME \<notin>
     (\<lambda>cr. call_optname (fst cr)) ` set (new_calls fresh_net (snd ?run))"
    by auto
  from h1 v f c show ?thesis
    by blast
qed

end
